theory Spec2Isabelle
  imports Complex_Main "HOL-Library.Sublist"
begin

section \<open>Values shared by the two scripts\<close>

text \<open>
  The repository is two Python scripts, \<^verbatim>\<open>merge_lora.py\<close> (the Fetcher) and
  \<^verbatim>\<open>test_model.py\<close> (the Smoke Tester). Each is a straight line of calls into a
  library (\<^verbatim>\<open>huggingface_hub\<close>, \<^verbatim>\<open>transformers\<close>, \<^verbatim>\<open>torch\<close>). The library is not
  part of the repository, so it is a parameter of the model: a record of functions, one
  per call the script makes. A call that raises returns \<open>Inl\<close> of the exception; a
  script stops at the first \<open>Inl\<close>, as an uncaught Python exception stops the
  interpreter. A Python \<^verbatim>\<open>str\<close> is a \<open>string\<close>, one \<open>char\<close> standing for one
  character.
\<close>

datatype exn = KeyError | IndexError | TypeError | LibraryError string

text \<open>The exit status of the interpreter: 0 when the script runs to its end, 1 when an
  exception reaches the top level.\<close>

definition exit_status :: "exn + 'a \<Rightarrow> nat" where
  "exit_status r = (case r of Inl e \<Rightarrow> 1 | Inr v \<Rightarrow> 0)"

subsection \<open>A run: what was printed and called, and how it ended\<close>

text \<open>
  A run of a script is the list of its events (each \<^verbatim>\<open>print\<close> and each library call, in
  the order they happen) with its result. \<open>bind\<close> is Python's sequencing of two
  statements: the second runs only when the first did not raise.
\<close>

type_synonym ('e, 'a) run = "'e list \<times> (exn + 'a)"

definition ret :: "'a \<Rightarrow> ('e, 'a) run" where
  "ret v = ([], Inr v)"

definition emit :: "'e \<Rightarrow> ('e, unit) run" where
  "emit ev = ([ev], Inr ())"

definition call :: "'e \<Rightarrow> exn + 'a \<Rightarrow> ('e, 'a) run" where
  "call ev r = ([ev], r)"

definition eval_expr :: "exn + 'a \<Rightarrow> ('e, 'a) run" where
  "eval_expr r = ([], r)"

definition bind :: "('e, 'a) run \<Rightarrow> ('a \<Rightarrow> ('e, 'b) run) \<Rightarrow> ('e, 'b) run" where
  "bind m f =
     (case m of
        (tr, Inl e) \<Rightarrow> (tr, Inl e)
      | (tr, Inr v) \<Rightarrow> (case f v of (tr', r) \<Rightarrow> (tr @ tr', r)))"

subsection \<open>Formatting an integer, as an f-string does\<close>

definition digit_char :: "nat \<Rightarrow> char" where
  "digit_char d = char_of (48 + d)"

function str_nat :: "nat \<Rightarrow> string" where
  "str_nat n = (if n < 10 then [digit_char n] else str_nat (n div 10) @ [digit_char (n mod 10)])"
  by pat_completeness auto
termination
  by (relation "measure id") auto

declare str_nat.simps [simp del]

definition str_int :: "int \<Rightarrow> string" where
  "str_int i = (if i < 0 then CHR ''-'' # str_nat (nat (- i)) else str_nat (nat i))"

section \<open>The Fetcher: merge\_lora.py\<close>

definition MODEL_ID :: string where
  "MODEL_ID = ''professorsynapse/nexus-tools_sft17''"

definition OUTPUT_DIR :: string where
  "OUTPUT_DIR = ''./nexus-tools-merged''"

text \<open>The keyword arguments of \<^verbatim>\<open>snapshot_download\<close>.\<close>

record download_request =
  repo_id :: string
  local_dir :: string
  local_dir_use_symlinks :: bool
  resume_download :: bool

text \<open>
  \<^verbatim>\<open>snapshot_download\<close> reads and changes the world outside the script (the files on disk,
  what has been transferred from the hub): it takes the world \<open>'w\<close> and returns the world
  it leaves, with the folder path it returns or the exception it raises.
\<close>

type_synonym 'w hub = "download_request \<Rightarrow> 'w \<Rightarrow> (exn + string) \<times> 'w"

datatype fetch_event = Print string | Call_snapshot_download download_request

definition merge_lora :: "'w hub \<Rightarrow> 'w \<Rightarrow> (fetch_event, unit) run \<times> 'w" where
  "merge_lora snapshot_download w =
     (let request = \<lparr>repo_id = MODEL_ID, local_dir = OUTPUT_DIR,
                      local_dir_use_symlinks = False, resume_download = True\<rparr>;
          before = [Print (''Downloading model: '' @ MODEL_ID),
                    Print ''This will download ~15GB on first run...'',
                    Call_snapshot_download request]
      in case snapshot_download request w of
           (Inl e, w') \<Rightarrow> ((before, Inl e), w')
         | (Inr folder, w') \<Rightarrow>
             ((before @ [Print (''Done! Model downloaded to: '' @ OUTPUT_DIR)], Inr ()), w'))"

section \<open>The Smoke Tester: test\_model.py\<close>

definition MODEL_PATH :: string where
  "MODEL_PATH = ''./nexus-tools-merged''"

subsection \<open>Tensors and encodings\<close>

text \<open>
  A tensor of token ids: its shape and its elements in row-major order. \<open>shape_at t i\<close>
  is \<^verbatim>\<open>t.shape[i]\<close> and \<open>index0 t\<close> is \<^verbatim>\<open>t[0]\<close>; both raise \<^verbatim>\<open>IndexError\<close> out of range.
\<close>

record tensor =
  shape :: "nat list"
  elems :: "int list"

definition shape_at :: "tensor \<Rightarrow> nat \<Rightarrow> exn + int" where
  "shape_at t i = (if i < length (shape t) then Inr (int (shape t ! i)) else Inl IndexError)"

definition index0 :: "tensor \<Rightarrow> exn + tensor" where
  "index0 t =
     (case shape t of
        [] \<Rightarrow> Inl IndexError
      | d # ds \<Rightarrow>
          if d = 0 then Inl IndexError
          else Inr \<lparr>shape = ds, elems = take (prod_list ds) (elems t)\<rparr>)"

text \<open>
  The tokenizer's result (a \<^verbatim>\<open>BatchEncoding\<close>) is a dictionary from names to tensors, kept
  in insertion order. \<open>getitem enc k\<close> is \<^verbatim>\<open>enc[k]\<close>.
\<close>

type_synonym encoding = "(string \<times> tensor) list"

definition getitem :: "encoding \<Rightarrow> string \<Rightarrow> exn + tensor" where
  "getitem enc k = (case map_of enc k of None \<Rightarrow> Inl KeyError | Some t \<Rightarrow> Inr t)"

subsection \<open>The library\<close>

datatype dtype = Float16 | BFloat16 | Float32

record chat_message =
  role :: string
  content :: string

text \<open>The keyword arguments of \<^verbatim>\<open>model.generate\<close>: those unpacked from the encoding and
  the four the script writes out.\<close>

record generate_kwargs =
  unpacked :: encoding
  max_new_tokens :: int
  temperature :: real
  do_sample :: bool
  pad_token_id :: "int option"

text \<open>
  \<^verbatim>\<open>f(**d, k=v)\<close> raises \<^verbatim>\<open>TypeError\<close> when \<open>d\<close> has the key \<open>k\<close> too.
\<close>

definition unpack_kwargs :: "encoding \<Rightarrow> string list \<Rightarrow> exn + unit" where
  "unpack_kwargs enc explicit =
     (if \<exists>k \<in> set (map fst enc). k \<in> set explicit then Inl TypeError else Inr ())"

text \<open>
  The calls the script makes into \<^verbatim>\<open>transformers\<close>, on a tokenizer \<open>'tk\<close> and a model
  \<open>'md\<close>. \<open>tokenizer_pad_token_id\<close> and \<open>model_device\<close> are the attributes
  \<^verbatim>\<open>tokenizer.pad_token_id\<close> and \<^verbatim>\<open>model.device\<close>. Sampling is random: \<open>generate\<close> stands
  for the outcome of one run, and a theorem for every library covers every outcome.
\<close>

record ('tk, 'md) transformers =
  tokenizer_from_pretrained :: "string \<Rightarrow> exn + 'tk"
  model_from_pretrained :: "string \<Rightarrow> dtype \<Rightarrow> string \<Rightarrow> exn + 'md"
  apply_chat_template :: "'tk \<Rightarrow> chat_message list \<Rightarrow> bool \<Rightarrow> bool \<Rightarrow> exn + string"
  tokenizer_call :: "'tk \<Rightarrow> string \<Rightarrow> string \<Rightarrow> exn + encoding"
  to_device :: "encoding \<Rightarrow> string \<Rightarrow> exn + encoding"
  model_device :: "'md \<Rightarrow> string"
  tokenizer_pad_token_id :: "'tk \<Rightarrow> int option"
  generate :: "'md \<Rightarrow> generate_kwargs \<Rightarrow> exn + tensor"
  decode :: "'tk \<Rightarrow> tensor \<Rightarrow> bool \<Rightarrow> exn + string"

datatype ('tk, 'md) event =
    Say string
  | Call_tokenizer_from_pretrained string
  | Call_model_from_pretrained string dtype string
  | Call_apply_chat_template 'tk "chat_message list" bool bool
  | Call_tokenizer 'tk string string
  | Call_to encoding string
  | Call_generate 'md generate_kwargs
  | Call_decode 'tk tensor bool

text \<open>The module's global variables when the script has run to its end.\<close>

record ('tk, 'md) globals =
  tokenizer :: 'tk
  model :: 'md
  messages :: "chat_message list"
  prompt :: string
  inputs :: encoding
  outputs :: tensor
  response :: string

text \<open>\<^verbatim>\<open>inputs['input_ids'].shape[1]\<close>\<close>

definition input_length :: "encoding \<Rightarrow> exn + int" where
  "input_length enc =
     (case getitem enc ''input_ids'' of Inl e \<Rightarrow> Inl e | Inr ids \<Rightarrow> shape_at ids 1)"

definition test_model :: "('tk, 'md) transformers \<Rightarrow> (('tk, 'md) event, ('tk, 'md) globals) run" where
  "test_model lib =
     bind (emit (Say ''Loading tokenizer...'')) (\<lambda>_.
     bind (call (Call_tokenizer_from_pretrained MODEL_PATH)
                (tokenizer_from_pretrained lib MODEL_PATH)) (\<lambda>tokenizer.
     bind (emit (Say ''Loading model (this may take a while)...'')) (\<lambda>_.
     bind (call (Call_model_from_pretrained MODEL_PATH Float16 ''auto'')
                (model_from_pretrained lib MODEL_PATH Float16 ''auto'')) (\<lambda>model.
     bind (emit (Say ''Generating test response...'')) (\<lambda>_.
     let messages = [\<lparr>role = ''user'', content = ''Hello! What can you help me with?''\<rparr>] in
     bind (call (Call_apply_chat_template tokenizer messages False True)
                (apply_chat_template lib tokenizer messages False True)) (\<lambda>prompt.
     bind (emit (Say (''Prompt: '' @ take 200 prompt @ ''...''))) (\<lambda>_.
     bind (call (Call_tokenizer tokenizer prompt ''pt'')
                (tokenizer_call lib tokenizer prompt ''pt'')) (\<lambda>enc.
     bind (call (Call_to enc (model_device lib model))
                (to_device lib enc (model_device lib model))) (\<lambda>inputs.
     bind (eval_expr (input_length inputs)) (\<lambda>n.
     bind (emit (Say (''Input tokens: '' @ str_int n))) (\<lambda>_.
     let kwargs = \<lparr>unpacked = inputs, max_new_tokens = 100, temperature = 0.7,
                    do_sample = True, pad_token_id = tokenizer_pad_token_id lib tokenizer\<rparr> in
     bind (eval_expr (unpack_kwargs inputs
             [''max_new_tokens'', ''temperature'', ''do_sample'', ''pad_token_id''])) (\<lambda>_.
     bind (call (Call_generate model kwargs) (generate lib model kwargs)) (\<lambda>outputs.
     bind (eval_expr (index0 outputs)) (\<lambda>row.
     bind (call (Call_decode tokenizer row True) (decode lib tokenizer row True)) (\<lambda>response.
     bind (emit (Say (CHR 0x0A # ''Full response:'' @ CHR 0x0A # response))) (\<lambda>_.
     bind (eval_expr (shape_at outputs 1)) (\<lambda>total.
     bind (eval_expr (input_length inputs)) (\<lambda>n'.
     bind (emit (Say (CHR 0x0A # ''Generated '' @ str_int (total - n') @ '' tokens''))) (\<lambda>_.
     ret \<lparr>tokenizer = tokenizer, model = model, messages = messages, prompt = prompt,
          inputs = inputs, outputs = outputs, response = response\<rparr>
     )))))))))))))))))))"

subsection \<open>Reading a run of the Smoke Tester\<close>

text \<open>The library calls among the events of a run.\<close>

definition is_call :: "('tk, 'md) event \<Rightarrow> bool" where
  "is_call ev = (case ev of Say s \<Rightarrow> False | _ \<Rightarrow> True)"

definition calls :: "('tk, 'md) event list \<Rightarrow> ('tk, 'md) event list" where
  "calls tr = filter is_call tr"

text \<open>The exception a recorded call raises in the library \<open>lib\<close>, if it raises one.\<close>

definition exn_of :: "exn + 'a \<Rightarrow> exn option" where
  "exn_of r = (case r of Inl e \<Rightarrow> Some e | Inr v \<Rightarrow> None)"

definition raised :: "('tk, 'md) transformers \<Rightarrow> ('tk, 'md) event \<Rightarrow> exn option" where
  "raised lib ev =
     (case ev of
        Say s \<Rightarrow> None
      | Call_tokenizer_from_pretrained path \<Rightarrow> exn_of (tokenizer_from_pretrained lib path)
      | Call_model_from_pretrained path dt dm \<Rightarrow> exn_of (model_from_pretrained lib path dt dm)
      | Call_apply_chat_template tk ms tok gen \<Rightarrow> exn_of (apply_chat_template lib tk ms tok gen)
      | Call_tokenizer tk text rt \<Rightarrow> exn_of (tokenizer_call lib tk text rt)
      | Call_to enc dev \<Rightarrow> exn_of (to_device lib enc dev)
      | Call_generate md kw \<Rightarrow> exn_of (generate lib md kw)
      | Call_decode tk t skip \<Rightarrow> exn_of (decode lib tk t skip))"

text \<open>The six steps of the Smoke Tester, and the step a call belongs to. Tokenizing the
  prompt and moving the result to the model's device are one step.\<close>

datatype step = Load_tokenizer | Load_model | Render_prompt | Tokenize | Generate | Decode

definition step_of :: "('tk, 'md) event \<Rightarrow> step option" where
  "step_of ev =
     (case ev of
        Say s \<Rightarrow> None
      | Call_tokenizer_from_pretrained path \<Rightarrow> Some Load_tokenizer
      | Call_model_from_pretrained path dt dm \<Rightarrow> Some Load_model
      | Call_apply_chat_template tk ms tok gen \<Rightarrow> Some Render_prompt
      | Call_tokenizer tk text rt \<Rightarrow> Some Tokenize
      | Call_to enc dev \<Rightarrow> Some Tokenize
      | Call_generate md kw \<Rightarrow> Some Generate
      | Call_decode tk t skip \<Rightarrow> Some Decode)"

definition steps :: "('tk, 'md) event list \<Rightarrow> step list" where
  "steps tr = remdups_adj (List.map_filter step_of tr)"

subsection \<open>What the script relies on from \<^verbatim>\<open>generate\<close>\<close>

text \<open>
  For a causal language model \<^verbatim>\<open>generate\<close> returns, for each row of \<^verbatim>\<open>input_ids\<close>, that row
  followed by the tokens it generated: at least one, and at most \<^verbatim>\<open>max_new_tokens\<close>. The
  script does not check this; the two predicates below state it, and the theorems that
  need it take it as a hypothesis on the library.
\<close>

definition emits_new_tokens :: "generate_kwargs \<Rightarrow> tensor \<Rightarrow> bool" where
  "emits_new_tokens kw out =
     (case input_length (unpacked kw) of
        Inl e \<Rightarrow> True
      | Inr n \<Rightarrow>
          (case shape_at out 1 of
             Inl e \<Rightarrow> True
           | Inr t \<Rightarrow> n < t \<and> t \<le> n + max_new_tokens kw))"

definition well_formed :: "tensor \<Rightarrow> bool" where
  "well_formed t = (length (elems t) = prod_list (shape t))"

text \<open>Row \<open>i\<close> of a tensor of shape \<open>[b, n]\<close>.\<close>

definition row_of :: "tensor \<Rightarrow> nat \<Rightarrow> int list" where
  "row_of t i = take (shape t ! 1) (drop (i * (shape t ! 1)) (elems t))"

definition keeps_prompt :: "generate_kwargs \<Rightarrow> tensor \<Rightarrow> bool" where
  "keeps_prompt kw out =
     (case getitem (unpacked kw) ''input_ids'' of
        Inl e \<Rightarrow> True
      | Inr ids \<Rightarrow>
          well_formed ids \<and> well_formed out \<and>
          length (shape ids) = 2 \<and> length (shape out) = 2 \<and>
          shape out ! 0 = shape ids ! 0 \<and> shape ids ! 1 \<le> shape out ! 1 \<and>
          (\<forall>i < shape ids ! 0. take (shape ids ! 1) (row_of out i) = row_of ids i))"

text \<open>A library honours the two when every call of its \<open>generate\<close> that returns does.\<close>

definition generate_emits_new_tokens :: "('tk, 'md) transformers \<Rightarrow> bool" where
  "generate_emits_new_tokens lib =
     (\<forall>md kw out. generate lib md kw = Inr out \<longrightarrow> emits_new_tokens kw out)"

definition generate_keeps_prompt :: "('tk, 'md) transformers \<Rightarrow> bool" where
  "generate_keeps_prompt lib =
     (\<forall>md kw out. generate lib md kw = Inr out \<longrightarrow> keeps_prompt kw out)"

subsection \<open>A small library to run the scripts on\<close>

text \<open>
  A tokenizer is its padding token id; a model is the token it always generates. The
  tokenizer loads only from \<open>MODEL_PATH\<close>, the prompt is three tokens long, and
  \<open>generate\<close> appends two tokens to a single row.
\<close>

definition toy_generate :: "int \<Rightarrow> generate_kwargs \<Rightarrow> exn + tensor" where
  "toy_generate md kw =
     (case getitem (unpacked kw) ''input_ids'' of
        Inl e \<Rightarrow> Inl (LibraryError ''ValueError'')
      | Inr ids \<Rightarrow>
          if shape ids = [1, length (elems ids)] \<and> 2 \<le> max_new_tokens kw
          then Inr \<lparr>shape = [1, length (elems ids) + 2], elems = elems ids @ [md, md]\<rparr>
          else Inl (LibraryError ''ValueError''))"

definition toy_lib :: "(int option, int) transformers" where
  "toy_lib =
     \<lparr>tokenizer_from_pretrained =
        (\<lambda>path. if path = MODEL_PATH then Inr None else Inl (LibraryError ''OSError'')),
      model_from_pretrained = (\<lambda>path dt dm. Inr 7),
      apply_chat_template =
        (\<lambda>tk ms tok gen. Inr (concat (map content ms) @ (if gen then ''<|assistant|>'' else []))),
      tokenizer_call =
        (\<lambda>tk text rt. Inr [(''input_ids'', \<lparr>shape = [1, 3], elems = [11, 12, 13]\<rparr>),
                          (''attention_mask'', \<lparr>shape = [1, 3], elems = [1, 1, 1]\<rparr>)]),
      to_device = (\<lambda>enc dev. Inr enc),
      model_device = (\<lambda>md. ''cpu''),
      tokenizer_pad_token_id = (\<lambda>tk. tk),
      generate = toy_generate,
      decode = (\<lambda>tk t skip. Inr ''Hi!'')\<rparr>"

text \<open>The same library over a directory with no tokenizer files, and over one with no
  weights.\<close>

definition no_tokenizer_lib :: "(int option, int) transformers" where
  "no_tokenizer_lib =
     toy_lib\<lparr>tokenizer_from_pretrained := (\<lambda>path. Inl (LibraryError ''OSError''))\<rparr>"

definition no_weights_lib :: "(int option, int) transformers" where
  "no_weights_lib =
     toy_lib\<lparr>model_from_pretrained := (\<lambda>path dt dm. Inl (LibraryError ''OSError''))\<rparr>"

text \<open>A hub over a world that is the list of the files on disk, each a regular file or a
  symbolic link: a download leaves the one file of the repository.\<close>

datatype file_kind = Regular | Symlink

definition toy_hub :: "((string \<times> file_kind) list) hub" where
  "toy_hub request w =
     (if repo_id request = MODEL_ID
      then (Inr (local_dir request),
            [(local_dir request @ ''/model.safetensors'',
              if local_dir_use_symlinks request then Symlink else Regular)])
      else (Inl (LibraryError ''RepositoryNotFoundError''), w))"

definition offline_hub :: "((string \<times> file_kind) list) hub" where
  "offline_hub request w = (Inl (LibraryError ''ConnectionError''), w)"


text \<open>What the Smoke Tester prints and calls on \<open>toy_lib\<close>, and the globals it ends with.\<close>

definition toy_events :: "(int option, int) event list" where
  "toy_events =
     [Say ''Loading tokenizer...'',
      Call_tokenizer_from_pretrained ''./nexus-tools-merged'',
      Say ''Loading model (this may take a while)...'',
      Call_model_from_pretrained ''./nexus-tools-merged'' Float16 ''auto'',
      Say ''Generating test response...'',
      Call_apply_chat_template None
        [\<lparr>role = ''user'', content = ''Hello! What can you help me with?''\<rparr>] False True,
      Say ''Prompt: Hello! What can you help me with?<|assistant|>...'',
      Call_tokenizer None ''Hello! What can you help me with?<|assistant|>'' ''pt'',
      Call_to [(''input_ids'', \<lparr>shape = [1, 3], elems = [11, 12, 13]\<rparr>),
               (''attention_mask'', \<lparr>shape = [1, 3], elems = [1, 1, 1]\<rparr>)] ''cpu'',
      Say ''Input tokens: 3'',
      Call_generate 7
        \<lparr>unpacked = [(''input_ids'', \<lparr>shape = [1, 3], elems = [11, 12, 13]\<rparr>),
                      (''attention_mask'', \<lparr>shape = [1, 3], elems = [1, 1, 1]\<rparr>)],
         max_new_tokens = 100, temperature = 0.7, do_sample = True, pad_token_id = None\<rparr>,
      Call_decode None \<lparr>shape = [5], elems = [11, 12, 13, 7, 7]\<rparr> True,
      Say (CHR 0x0A # ''Full response:'' @ CHR 0x0A # ''Hi!''),
      Say (CHR 0x0A # ''Generated 2 tokens'')]"

definition toy_globals :: "(int option, int) globals" where
  "toy_globals =
     \<lparr>tokenizer = None, model = 7,
      messages = [\<lparr>role = ''user'', content = ''Hello! What can you help me with?''\<rparr>],
      prompt = ''Hello! What can you help me with?<|assistant|>'',
      inputs = [(''input_ids'', \<lparr>shape = [1, 3], elems = [11, 12, 13]\<rparr>),
                (''attention_mask'', \<lparr>shape = [1, 3], elems = [1, 1, 1]\<rparr>)],
      outputs = \<lparr>shape = [1, 5], elems = [11, 12, 13, 7, 7]\<rparr>, response = ''Hi!''\<rparr>"

subsection \<open>What the Fetcher relies on from \<^verbatim>\<open>snapshot_download\<close>\<close>

text \<open>
  The world of the hub client, as far as the two flags of the request are concerned: the
  entries on disk (a finished file, a symbolic link, or a partial file with the number
  of bytes it has), and the downloads begun so far, each with its path and the byte it
  began at.
\<close>

datatype entry = File | Link | Partial nat

record disk =
  entries :: "(string \<times> entry) list"
  started :: "(string \<times> nat) list"






text \<open>
  A hub with one file in the repository. It keeps what is on disk, writes the file as a
  link or as a real copy as the request says, and begins at the end of a partial file
  only when the request says to resume. \<open>interrupted_disk\<close> is the disk after a download
  that stopped at byte 4; \<open>linked_disk\<close> has a symbolic link in the output directory
  before the Fetcher runs.
\<close>

definition first_byte :: "bool \<Rightarrow> entry option \<Rightarrow> nat" where
  "first_byte resume found =
     (case found of Some (Partial k) \<Rightarrow> if resume then k else 0 | _ \<Rightarrow> 0)"

definition one_file_hub :: "disk hub" where
  "one_file_hub q d =
     (let path = local_dir q @ ''/model.safetensors'' in
      if map_of (entries d) path = Some File then (Inr (local_dir q), d)
      else (Inr (local_dir q),
            \<lparr>entries = filter (\<lambda>(p, e). p \<noteq> path) (entries d) @
                 [(path, if local_dir_use_symlinks q then Link else File)],
             started = started d @
                 [(path, first_byte (resume_download q) (map_of (entries d) path))]\<rparr>))"

definition interrupted_disk :: disk where
  "interrupted_disk =
     \<lparr>entries = [(''./nexus-tools-merged/model.safetensors'', Partial 4)],
      started = [(''./nexus-tools-merged/model.safetensors'', 0)]\<rparr>"


section \<open>Formatting is injective\<close>








section \<open>Sequencing\<close>

lemma bind_Inl: "bind (tr, Inl e) f = (tr, Inl e)"
  by (simp add: bind_def)

lemma bind_Inr: "bind (tr, Inr v) f = (case f v of (tr', r) \<Rightarrow> (tr @ tr', r))"
  by (simp add: bind_def)

lemma bind_eq_iff:
  "bind m f = (tr, r) \<longleftrightarrow>
     (\<exists>e. m = (tr, Inl e) \<and> r = Inl e) \<or>
     (\<exists>tr1 v tr2. m = (tr1, Inr v) \<and> f v = (tr2, r) \<and> tr = tr1 @ tr2)"
  by (cases m; cases "snd m") (auto simp: bind_def split: prod.splits)

lemma bindE:
  assumes "bind m f = (tr, r)"
  obtains (raises) e where "m = (tr, Inl e)" "r = Inl e"
  | (returns) tr1 v tr2 where "m = (tr1, Inr v)" "f v = (tr2, r)" "tr = tr1 @ tr2"
  using assms by (auto simp: bind_eq_iff)

lemma bind_InrE:
  assumes "bind m f = (tr, Inr b)"
  obtains tr1 v tr2 where "m = (tr1, Inr v)" "f v = (tr2, Inr b)" "tr = tr1 @ tr2"
  using assms by (auto simp: bind_eq_iff)

lemmas run_defs = emit_def call_def eval_expr_def ret_def

section \<open>Every run of the Smoke Tester\<close>

text \<open>
  The script has no branch of its own: a run is decided by the first operation that
  raises. There are eleven operations that can raise (seven library calls, and the
  indexing and keyword unpacking around them), so a run takes one of twelve paths. The
  lemma lists them, each with its events and its result.
\<close>

lemma test_model_paths:
  assumes "test_model lib = (tr, r)"
  shows
   "(\<exists>e.
       tokenizer_from_pretrained lib MODEL_PATH = Inl e \<and>
       r = Inl e \<and>
       tr = [Say ''Loading tokenizer...'',
             Call_tokenizer_from_pretrained MODEL_PATH]) \<or>
    (\<exists>tk e.
       tokenizer_from_pretrained lib MODEL_PATH = Inr tk \<and>
       model_from_pretrained lib MODEL_PATH Float16 ''auto'' = Inl e \<and>
       r = Inl e \<and>
       tr = [Say ''Loading tokenizer...'',
             Call_tokenizer_from_pretrained MODEL_PATH,
             Say ''Loading model (this may take a while)...'',
             Call_model_from_pretrained MODEL_PATH Float16 ''auto'']) \<or>
    (\<exists>tk md e.
       tokenizer_from_pretrained lib MODEL_PATH = Inr tk \<and>
       model_from_pretrained lib MODEL_PATH Float16 ''auto'' = Inr md \<and>
       apply_chat_template lib tk [\<lparr>role = ''user'', content = ''Hello! What can you help me with?''\<rparr>] False True = Inl e \<and>
       r = Inl e \<and>
       tr = [Say ''Loading tokenizer...'',
             Call_tokenizer_from_pretrained MODEL_PATH,
             Say ''Loading model (this may take a while)...'',
             Call_model_from_pretrained MODEL_PATH Float16 ''auto'',
             Say ''Generating test response...'',
             Call_apply_chat_template tk [\<lparr>role = ''user'', content = ''Hello! What can you help me with?''\<rparr>] False True]) \<or>
    (\<exists>tk md p e.
       tokenizer_from_pretrained lib MODEL_PATH = Inr tk \<and>
       model_from_pretrained lib MODEL_PATH Float16 ''auto'' = Inr md \<and>
       apply_chat_template lib tk [\<lparr>role = ''user'', content = ''Hello! What can you help me with?''\<rparr>] False True = Inr p \<and>
       tokenizer_call lib tk p ''pt'' = Inl e \<and>
       r = Inl e \<and>
       tr = [Say ''Loading tokenizer...'',
             Call_tokenizer_from_pretrained MODEL_PATH,
             Say ''Loading model (this may take a while)...'',
             Call_model_from_pretrained MODEL_PATH Float16 ''auto'',
             Say ''Generating test response...'',
             Call_apply_chat_template tk [\<lparr>role = ''user'', content = ''Hello! What can you help me with?''\<rparr>] False True,
             Say (''Prompt: '' @ take 200 p @ ''...''),
             Call_tokenizer tk p ''pt'']) \<or>
    (\<exists>tk md p enc e.
       tokenizer_from_pretrained lib MODEL_PATH = Inr tk \<and>
       model_from_pretrained lib MODEL_PATH Float16 ''auto'' = Inr md \<and>
       apply_chat_template lib tk [\<lparr>role = ''user'', content = ''Hello! What can you help me with?''\<rparr>] False True = Inr p \<and>
       tokenizer_call lib tk p ''pt'' = Inr enc \<and>
       to_device lib enc (model_device lib md) = Inl e \<and>
       r = Inl e \<and>
       tr = [Say ''Loading tokenizer...'',
             Call_tokenizer_from_pretrained MODEL_PATH,
             Say ''Loading model (this may take a while)...'',
             Call_model_from_pretrained MODEL_PATH Float16 ''auto'',
             Say ''Generating test response...'',
             Call_apply_chat_template tk [\<lparr>role = ''user'', content = ''Hello! What can you help me with?''\<rparr>] False True,
             Say (''Prompt: '' @ take 200 p @ ''...''),
             Call_tokenizer tk p ''pt'',
             Call_to enc (model_device lib md)]) \<or>
    (\<exists>tk md p enc inp e.
       tokenizer_from_pretrained lib MODEL_PATH = Inr tk \<and>
       model_from_pretrained lib MODEL_PATH Float16 ''auto'' = Inr md \<and>
       apply_chat_template lib tk [\<lparr>role = ''user'', content = ''Hello! What can you help me with?''\<rparr>] False True = Inr p \<and>
       tokenizer_call lib tk p ''pt'' = Inr enc \<and>
       to_device lib enc (model_device lib md) = Inr inp \<and>
       input_length inp = Inl e \<and>
       r = Inl e \<and>
       tr = [Say ''Loading tokenizer...'',
             Call_tokenizer_from_pretrained MODEL_PATH,
             Say ''Loading model (this may take a while)...'',
             Call_model_from_pretrained MODEL_PATH Float16 ''auto'',
             Say ''Generating test response...'',
             Call_apply_chat_template tk [\<lparr>role = ''user'', content = ''Hello! What can you help me with?''\<rparr>] False True,
             Say (''Prompt: '' @ take 200 p @ ''...''),
             Call_tokenizer tk p ''pt'',
             Call_to enc (model_device lib md)]) \<or>
    (\<exists>tk md p enc inp n e.
       tokenizer_from_pretrained lib MODEL_PATH = Inr tk \<and>
       model_from_pretrained lib MODEL_PATH Float16 ''auto'' = Inr md \<and>
       apply_chat_template lib tk [\<lparr>role = ''user'', content = ''Hello! What can you help me with?''\<rparr>] False True = Inr p \<and>
       tokenizer_call lib tk p ''pt'' = Inr enc \<and>
       to_device lib enc (model_device lib md) = Inr inp \<and>
       input_length inp = Inr n \<and>
       unpack_kwargs inp [''max_new_tokens'', ''temperature'', ''do_sample'', ''pad_token_id''] = Inl e \<and>
       r = Inl e \<and>
       tr = [Say ''Loading tokenizer...'',
             Call_tokenizer_from_pretrained MODEL_PATH,
             Say ''Loading model (this may take a while)...'',
             Call_model_from_pretrained MODEL_PATH Float16 ''auto'',
             Say ''Generating test response...'',
             Call_apply_chat_template tk [\<lparr>role = ''user'', content = ''Hello! What can you help me with?''\<rparr>] False True,
             Say (''Prompt: '' @ take 200 p @ ''...''),
             Call_tokenizer tk p ''pt'',
             Call_to enc (model_device lib md),
             Say (''Input tokens: '' @ str_int n)]) \<or>
    (\<exists>tk md p enc inp n e.
       tokenizer_from_pretrained lib MODEL_PATH = Inr tk \<and>
       model_from_pretrained lib MODEL_PATH Float16 ''auto'' = Inr md \<and>
       apply_chat_template lib tk [\<lparr>role = ''user'', content = ''Hello! What can you help me with?''\<rparr>] False True = Inr p \<and>
       tokenizer_call lib tk p ''pt'' = Inr enc \<and>
       to_device lib enc (model_device lib md) = Inr inp \<and>
       input_length inp = Inr n \<and>
       unpack_kwargs inp [''max_new_tokens'', ''temperature'', ''do_sample'', ''pad_token_id''] = Inr () \<and>
       generate lib md \<lparr>unpacked = inp, max_new_tokens = 100, temperature = 0.7, do_sample = True,
             pad_token_id = tokenizer_pad_token_id lib tk\<rparr> = Inl e \<and>
       r = Inl e \<and>
       tr = [Say ''Loading tokenizer...'',
             Call_tokenizer_from_pretrained MODEL_PATH,
             Say ''Loading model (this may take a while)...'',
             Call_model_from_pretrained MODEL_PATH Float16 ''auto'',
             Say ''Generating test response...'',
             Call_apply_chat_template tk [\<lparr>role = ''user'', content = ''Hello! What can you help me with?''\<rparr>] False True,
             Say (''Prompt: '' @ take 200 p @ ''...''),
             Call_tokenizer tk p ''pt'',
             Call_to enc (model_device lib md),
             Say (''Input tokens: '' @ str_int n),
             Call_generate md \<lparr>unpacked = inp, max_new_tokens = 100, temperature = 0.7, do_sample = True,
             pad_token_id = tokenizer_pad_token_id lib tk\<rparr>]) \<or>
    (\<exists>tk md p enc inp n out e.
       tokenizer_from_pretrained lib MODEL_PATH = Inr tk \<and>
       model_from_pretrained lib MODEL_PATH Float16 ''auto'' = Inr md \<and>
       apply_chat_template lib tk [\<lparr>role = ''user'', content = ''Hello! What can you help me with?''\<rparr>] False True = Inr p \<and>
       tokenizer_call lib tk p ''pt'' = Inr enc \<and>
       to_device lib enc (model_device lib md) = Inr inp \<and>
       input_length inp = Inr n \<and>
       unpack_kwargs inp [''max_new_tokens'', ''temperature'', ''do_sample'', ''pad_token_id''] = Inr () \<and>
       generate lib md \<lparr>unpacked = inp, max_new_tokens = 100, temperature = 0.7, do_sample = True,
             pad_token_id = tokenizer_pad_token_id lib tk\<rparr> = Inr out \<and>
       index0 out = Inl e \<and>
       r = Inl e \<and>
       tr = [Say ''Loading tokenizer...'',
             Call_tokenizer_from_pretrained MODEL_PATH,
             Say ''Loading model (this may take a while)...'',
             Call_model_from_pretrained MODEL_PATH Float16 ''auto'',
             Say ''Generating test response...'',
             Call_apply_chat_template tk [\<lparr>role = ''user'', content = ''Hello! What can you help me with?''\<rparr>] False True,
             Say (''Prompt: '' @ take 200 p @ ''...''),
             Call_tokenizer tk p ''pt'',
             Call_to enc (model_device lib md),
             Say (''Input tokens: '' @ str_int n),
             Call_generate md \<lparr>unpacked = inp, max_new_tokens = 100, temperature = 0.7, do_sample = True,
             pad_token_id = tokenizer_pad_token_id lib tk\<rparr>]) \<or>
    (\<exists>tk md p enc inp n out row e.
       tokenizer_from_pretrained lib MODEL_PATH = Inr tk \<and>
       model_from_pretrained lib MODEL_PATH Float16 ''auto'' = Inr md \<and>
       apply_chat_template lib tk [\<lparr>role = ''user'', content = ''Hello! What can you help me with?''\<rparr>] False True = Inr p \<and>
       tokenizer_call lib tk p ''pt'' = Inr enc \<and>
       to_device lib enc (model_device lib md) = Inr inp \<and>
       input_length inp = Inr n \<and>
       unpack_kwargs inp [''max_new_tokens'', ''temperature'', ''do_sample'', ''pad_token_id''] = Inr () \<and>
       generate lib md \<lparr>unpacked = inp, max_new_tokens = 100, temperature = 0.7, do_sample = True,
             pad_token_id = tokenizer_pad_token_id lib tk\<rparr> = Inr out \<and>
       index0 out = Inr row \<and>
       decode lib tk row True = Inl e \<and>
       r = Inl e \<and>
       tr = [Say ''Loading tokenizer...'',
             Call_tokenizer_from_pretrained MODEL_PATH,
             Say ''Loading model (this may take a while)...'',
             Call_model_from_pretrained MODEL_PATH Float16 ''auto'',
             Say ''Generating test response...'',
             Call_apply_chat_template tk [\<lparr>role = ''user'', content = ''Hello! What can you help me with?''\<rparr>] False True,
             Say (''Prompt: '' @ take 200 p @ ''...''),
             Call_tokenizer tk p ''pt'',
             Call_to enc (model_device lib md),
             Say (''Input tokens: '' @ str_int n),
             Call_generate md \<lparr>unpacked = inp, max_new_tokens = 100, temperature = 0.7, do_sample = True,
             pad_token_id = tokenizer_pad_token_id lib tk\<rparr>,
             Call_decode tk row True]) \<or>
    (\<exists>tk md p enc inp n out row resp e.
       tokenizer_from_pretrained lib MODEL_PATH = Inr tk \<and>
       model_from_pretrained lib MODEL_PATH Float16 ''auto'' = Inr md \<and>
       apply_chat_template lib tk [\<lparr>role = ''user'', content = ''Hello! What can you help me with?''\<rparr>] False True = Inr p \<and>
       tokenizer_call lib tk p ''pt'' = Inr enc \<and>
       to_device lib enc (model_device lib md) = Inr inp \<and>
       input_length inp = Inr n \<and>
       unpack_kwargs inp [''max_new_tokens'', ''temperature'', ''do_sample'', ''pad_token_id''] = Inr () \<and>
       generate lib md \<lparr>unpacked = inp, max_new_tokens = 100, temperature = 0.7, do_sample = True,
             pad_token_id = tokenizer_pad_token_id lib tk\<rparr> = Inr out \<and>
       index0 out = Inr row \<and>
       decode lib tk row True = Inr resp \<and>
       shape_at out 1 = Inl e \<and>
       r = Inl e \<and>
       tr = [Say ''Loading tokenizer...'',
             Call_tokenizer_from_pretrained MODEL_PATH,
             Say ''Loading model (this may take a while)...'',
             Call_model_from_pretrained MODEL_PATH Float16 ''auto'',
             Say ''Generating test response...'',
             Call_apply_chat_template tk [\<lparr>role = ''user'', content = ''Hello! What can you help me with?''\<rparr>] False True,
             Say (''Prompt: '' @ take 200 p @ ''...''),
             Call_tokenizer tk p ''pt'',
             Call_to enc (model_device lib md),
             Say (''Input tokens: '' @ str_int n),
             Call_generate md \<lparr>unpacked = inp, max_new_tokens = 100, temperature = 0.7, do_sample = True,
             pad_token_id = tokenizer_pad_token_id lib tk\<rparr>,
             Call_decode tk row True,
             Say (CHR 0x0A # ''Full response:'' @ CHR 0x0A # resp)]) \<or>
    (\<exists>tk md p enc inp n out row resp total.
       tokenizer_from_pretrained lib MODEL_PATH = Inr tk \<and>
       model_from_pretrained lib MODEL_PATH Float16 ''auto'' = Inr md \<and>
       apply_chat_template lib tk [\<lparr>role = ''user'', content = ''Hello! What can you help me with?''\<rparr>] False True = Inr p \<and>
       tokenizer_call lib tk p ''pt'' = Inr enc \<and>
       to_device lib enc (model_device lib md) = Inr inp \<and>
       input_length inp = Inr n \<and>
       unpack_kwargs inp [''max_new_tokens'', ''temperature'', ''do_sample'', ''pad_token_id''] = Inr () \<and>
       generate lib md \<lparr>unpacked = inp, max_new_tokens = 100, temperature = 0.7, do_sample = True,
             pad_token_id = tokenizer_pad_token_id lib tk\<rparr> = Inr out \<and>
       index0 out = Inr row \<and>
       decode lib tk row True = Inr resp \<and>
       shape_at out 1 = Inr total \<and>
       r = Inr \<lparr>tokenizer = tk, model = md, messages = [\<lparr>role = ''user'', content = ''Hello! What can you help me with?''\<rparr>],
             prompt = p, inputs = inp, outputs = out, response = resp\<rparr> \<and>
       tr = [Say ''Loading tokenizer...'',
             Call_tokenizer_from_pretrained MODEL_PATH,
             Say ''Loading model (this may take a while)...'',
             Call_model_from_pretrained MODEL_PATH Float16 ''auto'',
             Say ''Generating test response...'',
             Call_apply_chat_template tk [\<lparr>role = ''user'', content = ''Hello! What can you help me with?''\<rparr>] False True,
             Say (''Prompt: '' @ take 200 p @ ''...''),
             Call_tokenizer tk p ''pt'',
             Call_to enc (model_device lib md),
             Say (''Input tokens: '' @ str_int n),
             Call_generate md \<lparr>unpacked = inp, max_new_tokens = 100, temperature = 0.7, do_sample = True,
             pad_token_id = tokenizer_pad_token_id lib tk\<rparr>,
             Call_decode tk row True,
             Say (CHR 0x0A # ''Full response:'' @ CHR 0x0A # resp),
             Say (CHR 0x0A # ''Generated '' @ str_int (total - n) @ '' tokens'')])"
  using assms
  unfolding test_model_def Let_def
  apply (elim bindE)
  apply (simp_all add: run_defs)
  done

text \<open>The last path: a run that reaches the end of the script.\<close>

lemma test_model_success:
  assumes "test_model lib = (tr, Inr g)"
  shows "\<exists>tk md p enc inp n out row resp total.
      tokenizer_from_pretrained lib MODEL_PATH = Inr tk \<and>
      model_from_pretrained lib MODEL_PATH Float16 ''auto'' = Inr md \<and>
      apply_chat_template lib tk [\<lparr>role = ''user'', content = ''Hello! What can you help me with?''\<rparr>] False True = Inr p \<and>
      tokenizer_call lib tk p ''pt'' = Inr enc \<and>
      to_device lib enc (model_device lib md) = Inr inp \<and>
      input_length inp = Inr n \<and>
      unpack_kwargs inp [''max_new_tokens'', ''temperature'', ''do_sample'', ''pad_token_id''] = Inr () \<and>
      generate lib md \<lparr>unpacked = inp, max_new_tokens = 100, temperature = 0.7,
                    do_sample = True, pad_token_id = tokenizer_pad_token_id lib tk\<rparr> = Inr out \<and>
      index0 out = Inr row \<and>
      decode lib tk row True = Inr resp \<and>
      shape_at out 1 = Inr total \<and>
      g = \<lparr>tokenizer = tk, model = md, messages = [\<lparr>role = ''user'', content = ''Hello! What can you help me with?''\<rparr>], prompt = p,
          inputs = inp, outputs = out, response = resp\<rparr> \<and>
      tr = [Say ''Loading tokenizer...'', Call_tokenizer_from_pretrained MODEL_PATH,
            Say ''Loading model (this may take a while)...'',
            Call_model_from_pretrained MODEL_PATH Float16 ''auto'',
            Say ''Generating test response...'',
            Call_apply_chat_template tk [\<lparr>role = ''user'', content = ''Hello! What can you help me with?''\<rparr>] False True,
            Say (''Prompt: '' @ take 200 p @ ''...''),
            Call_tokenizer tk p ''pt'',
            Call_to enc (model_device lib md),
            Say (''Input tokens: '' @ str_int n),
            Call_generate md \<lparr>unpacked = inp, max_new_tokens = 100, temperature = 0.7,
                    do_sample = True, pad_token_id = tokenizer_pad_token_id lib tk\<rparr>,
            Call_decode tk row True,
            Say (CHR 0x0A # ''Full response:'' @ CHR 0x0A # resp),
            Say (CHR 0x0A # ''Generated '' @ str_int (total - n) @ '' tokens'')]"
  using test_model_paths [OF assms] by simp

lemma shape_two:
  assumes "length (shape t) = 2"
  obtains b n where "shape t = [b, n]"
proof -
  from assms obtain b ws where "shape t = b # ws" "length ws = 1"
    by (cases "shape t") auto
  then obtain n where "shape t = [b, n]"
    by (cases ws) auto
  then show ?thesis by (rule that)
qed

lemmas read_defs = steps_def calls_def is_call_def step_of_def raised_def exn_of_def
  exit_status_def List.map_filter_def

section \<open>The scripts on the small library\<close>

lemma str_int_2: "str_int 2 = ''2''"
  by code_simp

lemma str_int_3: "str_int 3 = ''3''"
  by code_simp

lemmas eval_defs = run_defs bind_Inl bind_Inr Let_def MODEL_PATH_def
  input_length_def getitem_def shape_at_def index0_def unpack_kwargs_def

lemma toy_run: "test_model toy_lib = (toy_events, Inr toy_globals)"
  by (simp add: test_model_def toy_lib_def toy_generate_def toy_events_def toy_globals_def
      eval_defs str_int_2 str_int_3)

lemma no_tokenizer_run:
  "test_model no_tokenizer_lib =
     ([Say ''Loading tokenizer...'', Call_tokenizer_from_pretrained MODEL_PATH],
      Inl (LibraryError ''OSError''))"
  by (simp add: test_model_def no_tokenizer_lib_def toy_lib_def eval_defs)

lemma no_weights_run:
  "test_model no_weights_lib =
     ([Say ''Loading tokenizer...'', Call_tokenizer_from_pretrained MODEL_PATH,
       Say ''Loading model (this may take a while)...'',
       Call_model_from_pretrained MODEL_PATH Float16 ''auto''],
      Inl (LibraryError ''OSError''))"
  by (simp add: test_model_def no_weights_lib_def toy_lib_def eval_defs)

lemma toy_fetch:
  "merge_lora toy_hub [] =
     (([Print ''Downloading model: professorsynapse/nexus-tools_sft17'',
        Print ''This will download ~15GB on first run...'',
        Call_snapshot_download \<lparr>repo_id = MODEL_ID, local_dir = OUTPUT_DIR,
          local_dir_use_symlinks = False, resume_download = True\<rparr>,
        Print ''Done! Model downloaded to: ./nexus-tools-merged''], Inr ()),
      [(''./nexus-tools-merged/model.safetensors'', Regular)])"
  by (simp add: merge_lora_def toy_hub_def Let_def MODEL_ID_def OUTPUT_DIR_def)

lemma offline_fetch:
  "merge_lora offline_hub [] =
     (([Print (''Downloading model: '' @ MODEL_ID),
        Print ''This will download ~15GB on first run...'',
        Call_snapshot_download \<lparr>repo_id = MODEL_ID, local_dir = OUTPUT_DIR,
          local_dir_use_symlinks = False, resume_download = True\<rparr>],
       Inl (LibraryError ''ConnectionError'')), [])"
  by (simp add: merge_lora_def offline_hub_def Let_def)

lemma toy_emits: "generate_emits_new_tokens toy_lib"
  unfolding generate_emits_new_tokens_def
proof (intro allI impI)
  fix md kw out
  assume "generate toy_lib md kw = Inr out"
  then have g: "toy_generate md kw = Inr out" by (simp add: toy_lib_def)
  then obtain ids where ids: "getitem (unpacked kw) ''input_ids'' = Inr ids"
    and sh: "shape ids = [1, length (elems ids)]" and cap: "2 \<le> max_new_tokens kw"
    and out: "out = \<lparr>shape = [1, length (elems ids) + 2], elems = elems ids @ [md, md]\<rparr>"
    by (auto simp: toy_generate_def split: sum.splits if_splits)
  from ids sh out cap show "emits_new_tokens kw out"
    by (simp add: emits_new_tokens_def input_length_def shape_at_def)
qed

lemma toy_keeps: "generate_keeps_prompt toy_lib"
  unfolding generate_keeps_prompt_def
proof (intro allI impI)
  fix md kw out
  assume "generate toy_lib md kw = Inr out"
  then have g: "toy_generate md kw = Inr out" by (simp add: toy_lib_def)
  then obtain ids where ids: "getitem (unpacked kw) ''input_ids'' = Inr ids"
    and sh: "shape ids = [1, length (elems ids)]"
    and out: "out = \<lparr>shape = [1, length (elems ids) + 2], elems = elems ids @ [md, md]\<rparr>"
    by (auto simp: toy_generate_def split: sum.splits if_splits)
  from ids sh out show "keeps_prompt kw out"
    by (simp add: keeps_prompt_def well_formed_def row_of_def)
qed





lemma one_file_hub_other_flags:
  "one_file_hub \<lparr>repo_id = MODEL_ID, local_dir = OUTPUT_DIR,
       local_dir_use_symlinks = True, resume_download = False\<rparr> interrupted_disk =
     (Inr ''./nexus-tools-merged'',
      \<lparr>entries = [(''./nexus-tools-merged/model.safetensors'', Link)],
       started = [(''./nexus-tools-merged/model.safetensors'', 0),
                  (''./nexus-tools-merged/model.safetensors'', 0)]\<rparr>)"
  by (simp add: one_file_hub_def interrupted_disk_def first_byte_def Let_def OUTPUT_DIR_def)

section \<open>The claims\<close>

text \<open>
  Claim C1. In every run of the Smoke Tester that reaches its last line, the number it
  prints after \<^verbatim>\<open>Generated\<close> (the length of the output sequence minus the length of the
  input sequence) is greater than 0 and at most 100, the value the script passes as
  \<^verbatim>\<open>max_new_tokens\<close>. The script passes the cap and subtracts; that \<^verbatim>\<open>generate\<close> emits
  at least one token and no more than the cap is the library's part, and is the
  hypothesis \<open>generate_emits_new_tokens\<close>.
\<close>

theorem generated_count_bounds:
  assumes contract: "generate_emits_new_tokens lib"
    and run: "test_model lib = (tr, Inr g)"
  shows "\<exists>n total md kw.
      input_length (inputs g) = Inr n \<and> shape_at (outputs g) 1 = Inr total \<and>
      last tr = Say (CHR 0x0A # ''Generated '' @ str_int (total - n) @ '' tokens'') \<and>
      0 < total - n \<and> total - n \<le> 100 \<and>
      Call_generate md kw \<in> set tr \<and> max_new_tokens kw = 100"
proof -
  from test_model_success [OF run] obtain tk md p enc inp n out row resp total where
    len: "input_length inp = Inr n" and
    gen: "generate lib md \<lparr>unpacked = inp, max_new_tokens = 100, temperature = 0.7,
            do_sample = True, pad_token_id = tokenizer_pad_token_id lib tk\<rparr> = Inr out" and
    tot: "shape_at out 1 = Inr total" and
    g: "inputs g = inp" "outputs g = out" and
    tr: "last tr = Say (CHR 0x0A # ''Generated '' @ str_int (total - n) @ '' tokens'')"
      "Call_generate md \<lparr>unpacked = inp, max_new_tokens = 100, temperature = 0.7,
            do_sample = True, pad_token_id = tokenizer_pad_token_id lib tk\<rparr> \<in> set tr"
    by auto
  from contract gen have "emits_new_tokens \<lparr>unpacked = inp, max_new_tokens = 100, temperature = 0.7,
            do_sample = True, pad_token_id = tokenizer_pad_token_id lib tk\<rparr> out"
    unfolding generate_emits_new_tokens_def by blast
  with len tot have "n < total" "total \<le> n + 100"
    by (simp_all add: emits_new_tokens_def)
  with len tot g tr show ?thesis
    by (intro exI [of _ n] exI [of _ total] exI [of _ md]
        exI [of _ "\<lparr>unpacked = inp, max_new_tokens = 100, temperature = 0.7,
            do_sample = True, pad_token_id = tokenizer_pad_token_id lib tk\<rparr>"]) simp
qed

theorem generated_count_bounds_witness:
  "generate_emits_new_tokens toy_lib \<and>
   test_model toy_lib = (toy_events, Inr toy_globals) \<and>
   (\<exists>c. last toy_events = Say (CHR 0x0A # ''Generated '' @ str_int c @ '' tokens'') \<and>
        0 < c \<and> c \<le> 100)"
proof -
  from generated_count_bounds [OF toy_emits toy_run] obtain n total where
    "last toy_events = Say (CHR 0x0A # ''Generated '' @ str_int (total - n) @ '' tokens'')"
    "0 < total - n" "total - n \<le> 100"
    by blast
  then have "\<exists>c. last toy_events = Say (CHR 0x0A # ''Generated '' @ str_int c @ '' tokens'') \<and>
        0 < c \<and> c \<le> 100"
    by blast
  with toy_emits toy_run show ?thesis by blast
qed

text \<open>
  Claim C2. In every run that reaches its last line, the text printed as the response is
  the decoding, with special tokens skipped, of the first row of the output, and that
  row is the first row of the input ids followed by the new tokens: the input count
  and the generated count the script prints are the lengths of these two parts. That
  \<^verbatim>\<open>generate\<close> returns each prompt followed by what it generated is the library's part,
  the hypothesis \<open>generate_keeps_prompt\<close>.
\<close>

theorem response_decodes_input_and_generated:
  assumes contract: "generate_keeps_prompt lib"
    and run: "test_model lib = (tr, Inr g)"
  shows "\<exists>ids row new.
      getitem (inputs g) ''input_ids'' = Inr ids \<and>
      index0 (outputs g) = Inr row \<and>
      decode lib (tokenizer g) row True = Inr (response g) \<and>
      elems row = row_of ids 0 @ new \<and>
      Say (''Input tokens: '' @ str_int (int (length (row_of ids 0)))) \<in> set tr \<and>
      Say (CHR 0x0A # ''Full response:'' @ CHR 0x0A # response g) \<in> set tr \<and>
      last tr = Say (CHR 0x0A # ''Generated '' @ str_int (int (length new)) @ '' tokens'')"
proof -
  from test_model_success [OF run] obtain tk md inp n out row resp total where
    len: "input_length inp = Inr n" and
    gen: "generate lib md \<lparr>unpacked = inp, max_new_tokens = 100, temperature = 0.7,
            do_sample = True, pad_token_id = tokenizer_pad_token_id lib tk\<rparr> = Inr out" and
    idx: "index0 out = Inr row" and
    dec: "decode lib tk row True = Inr resp" and
    tot: "shape_at out 1 = Inr total" and
    g: "inputs g = inp" "outputs g = out" "tokenizer g = tk" "response g = resp" and
    tr: "Say (''Input tokens: '' @ str_int n) \<in> set tr"
      "Say (CHR 0x0A # ''Full response:'' @ CHR 0x0A # resp) \<in> set tr"
      "last tr = Say (CHR 0x0A # ''Generated '' @ str_int (total - n) @ '' tokens'')"
    by auto
  from len obtain ids where ids: "getitem inp ''input_ids'' = Inr ids"
    and n: "shape_at ids 1 = Inr n"
    by (auto simp: input_length_def split: sum.splits)
  from contract gen have "keeps_prompt \<lparr>unpacked = inp, max_new_tokens = 100, temperature = 0.7,
            do_sample = True, pad_token_id = tokenizer_pad_token_id lib tk\<rparr> out"
    unfolding generate_keeps_prompt_def by blast
  with ids have wf: "well_formed ids" "well_formed out"
    and two: "length (shape ids) = 2" "length (shape out) = 2"
    and batch: "shape out ! 0 = shape ids ! 0"
    and le: "shape ids ! 1 \<le> shape out ! 1"
    and rows: "\<forall>i < shape ids ! 0. take (shape ids ! 1) (row_of out i) = row_of ids i"
    by (simp_all add: keeps_prompt_def)
  from two(1) obtain b m where sids: "shape ids = [b, m]" by (rule shape_two)
  from two(2) obtain b' t where sout: "shape out = [b', t]" by (rule shape_two)
  from batch sids sout have b': "b' = b" by simp
  from idx sout b' have b: "b \<noteq> 0" and row: "row = \<lparr>shape = [t], elems = take t (elems out)\<rparr>"
    by (auto simp: index0_def split: if_splits)
  from le sids sout have mt: "m \<le> t" by simp
  from wf sids sout b' have lens: "length (elems ids) = b * m" "length (elems out) = b * t"
    by (simp_all add: well_formed_def)
  from b have "m \<le> b * m" "t \<le> b * t" by simp_all
  with lens have ge: "m \<le> length (elems ids)" "t \<le> length (elems out)" by simp_all
  have r0: "row_of out 0 = elems row" using row sout by (simp add: row_of_def)
  from rows b sids have "take m (row_of out 0) = row_of ids 0" by simp
  with r0 have pre: "take m (elems row) = row_of ids 0" by simp
  define new where "new = drop m (elems row)"
  have split: "elems row = row_of ids 0 @ new"
    unfolding new_def pre [symmetric] by simp
  have lrow: "length (elems row) = t" using row ge by simp
  have lnew: "length new = t - m" unfolding new_def using lrow by simp
  have lin: "length (row_of ids 0) = m" using sids ge by (simp add: row_of_def)
  from n sids have nm: "n = int m" by (simp add: shape_at_def)
  from tot sout have tt: "total = int t" by (simp add: shape_at_def)
  from nm tt mt lnew have diff: "total - n = int (length new)" by simp
  show ?thesis
    using ids idx dec g tr split lin nm diff
    by (intro exI [of _ ids] exI [of _ row] exI [of _ new]) simp
qed

theorem response_decodes_input_and_generated_witness:
  "generate_keeps_prompt toy_lib \<and>
   test_model toy_lib = (toy_events, Inr toy_globals) \<and>
   (\<exists>new. [11, 12, 13, 7, 7] = row_of \<lparr>shape = [1, 3], elems = [11, 12, 13]\<rparr> 0 @ new \<and>
      decode toy_lib None \<lparr>shape = [5], elems = [11, 12, 13, 7, 7]\<rparr> True = Inr ''Hi!'' \<and>
      last toy_events = Say (CHR 0x0A # ''Generated '' @ str_int (int (length new)) @ '' tokens''))"
proof -
  have ids: "getitem (inputs toy_globals) ''input_ids'' = Inr \<lparr>shape = [1, 3], elems = [11, 12, 13]\<rparr>"
    by (simp add: toy_globals_def getitem_def)
  have row: "index0 (outputs toy_globals) = Inr \<lparr>shape = [5], elems = [11, 12, 13, 7, 7]\<rparr>"
    by (simp add: toy_globals_def index0_def)
  have g: "tokenizer toy_globals = None" "response toy_globals = ''Hi!''"
    by (simp_all add: toy_globals_def)
  from response_decodes_input_and_generated [OF toy_keeps toy_run]
  obtain ids' row' new where
    "getitem (inputs toy_globals) ''input_ids'' = Inr ids'"
    "index0 (outputs toy_globals) = Inr row'"
    "decode toy_lib (tokenizer toy_globals) row' True = Inr (response toy_globals)"
    "elems row' = row_of ids' 0 @ new"
    "last toy_events = Say (CHR 0x0A # ''Generated '' @ str_int (int (length new)) @ '' tokens'')"
    by blast
  with ids row g have
    a: "[11, 12, 13, 7, 7] = row_of \<lparr>shape = [1, 3], elems = [11, 12, 13]\<rparr> 0 @ new" and
    b: "decode toy_lib None \<lparr>shape = [5], elems = [11, 12, 13, 7, 7]\<rparr> True = Inr ''Hi!''" and
    c: "last toy_events = Say (CHR 0x0A # ''Generated '' @ str_int (int (length new)) @ '' tokens'')"
    by simp_all
  show ?thesis
    by (intro conjI exI [of _ new]) (rule toy_keeps toy_run a b c)+
qed




text \<open>
  Claim C5. The Fetcher's output directory and the Smoke Tester's model path are the
  same string, which names the directory \<^verbatim>\<open>./nexus-tools-merged/\<close>: the download call of
  every Fetcher run has it as \<^verbatim>\<open>local_dir\<close>, and every Smoke Tester run loads the
  tokenizer from it.
\<close>

theorem shared_directory:
  fixes hub :: "'w hub"
  shows "OUTPUT_DIR = MODEL_PATH \<and> OUTPUT_DIR @ ''/'' = ''./nexus-tools-merged/'' \<and>
    Call_snapshot_download \<lparr>repo_id = MODEL_ID, local_dir = MODEL_PATH,
        local_dir_use_symlinks = False, resume_download = True\<rparr>
      \<in> set (fst (fst (merge_lora hub w))) \<and>
    Call_tokenizer_from_pretrained OUTPUT_DIR \<in> set (fst (test_model lib))"
proof -
  obtain tr r where t: "test_model lib = (tr, r)" by (cases "test_model lib")
  have "Call_tokenizer_from_pretrained MODEL_PATH \<in> set tr"
    using test_model_paths [OF t] by (elim disjE exE conjE) simp_all
  with t have "Call_tokenizer_from_pretrained OUTPUT_DIR \<in> set (fst (test_model lib))"
    by (simp add: OUTPUT_DIR_def MODEL_PATH_def)
  moreover have "Call_snapshot_download \<lparr>repo_id = MODEL_ID, local_dir = MODEL_PATH,
        local_dir_use_symlinks = False, resume_download = True\<rparr>
      \<in> set (fst (fst (merge_lora hub w)))"
    by (simp add: merge_lora_def Let_def OUTPUT_DIR_def MODEL_PATH_def split: prod.splits sum.splits)
  ultimately show ?thesis
    by (simp add: OUTPUT_DIR_def MODEL_PATH_def)
qed

theorem shared_directory_witness:
  "OUTPUT_DIR = MODEL_PATH \<and>
   Call_snapshot_download \<lparr>repo_id = MODEL_ID, local_dir = MODEL_PATH,
        local_dir_use_symlinks = False, resume_download = True\<rparr>
      \<in> set (fst (fst (merge_lora toy_hub []))) \<and>
   Call_tokenizer_from_pretrained OUTPUT_DIR \<in> set (fst (test_model toy_lib))"
  by (rule conjI [OF shared_directory [of toy_hub "[]" toy_lib, THEN conjunct1]
        shared_directory [of toy_hub "[]" toy_lib, THEN conjunct2, THEN conjunct2]])

text \<open>
  Claim C6. Every call of \<^verbatim>\<open>generate\<close> in a run of the Smoke Tester has sampling enabled,
  temperature 0.7, at most 100 new tokens, and the padding token id of the tokenizer
  the run loaded.
\<close>

theorem generate_arguments:
  assumes "test_model lib = (tr, r)" and "Call_generate md kw \<in> set tr"
  shows "do_sample kw \<and> temperature kw = 0.7 \<and> max_new_tokens kw = 100 \<and>
    (\<exists>tk. tokenizer_from_pretrained lib MODEL_PATH = Inr tk \<and>
          pad_token_id kw = tokenizer_pad_token_id lib tk)"
  using test_model_paths [OF assms(1)] assms(2)
  by (elim disjE exE conjE) simp_all

theorem generate_arguments_witness:
  "test_model toy_lib = (toy_events, Inr toy_globals) \<and>
   (\<exists>kw. Call_generate 7 kw \<in> set toy_events \<and>
      do_sample kw \<and> temperature kw = 0.7 \<and> max_new_tokens kw = 100 \<and>
      pad_token_id kw = tokenizer_pad_token_id toy_lib None)"
proof -
  define kw where "kw = \<lparr>unpacked = [(''input_ids'', \<lparr>shape = [1, 3], elems = [11, 12, 13]\<rparr>),
                      (''attention_mask'', \<lparr>shape = [1, 3], elems = [1, 1, 1]\<rparr>)],
         max_new_tokens = 100, temperature = 0.7, do_sample = True, pad_token_id = None\<rparr>"
  have mem: "Call_generate 7 kw \<in> set toy_events"
    by (simp add: toy_events_def kw_def)
  have tk: "tokenizer_from_pretrained toy_lib MODEL_PATH = Inr None"
    by (simp add: toy_lib_def)
  from generate_arguments [OF toy_run mem] tk
  have "do_sample kw \<and> temperature kw = 0.7 \<and> max_new_tokens kw = 100 \<and>
      pad_token_id kw = tokenizer_pad_token_id toy_lib None"
    by auto
  with mem toy_run show ?thesis by blast
qed



text \<open>
  Claim C8. Neither script catches, retries or translates a failure. When the download
  raises, the Fetcher ends with that exception and a non-zero exit status, right after
  the call. When a library call of the Smoke Tester raises, the run ends with that
  exception and a non-zero exit status, the call is the last event and happened once.
  When the tokenizer or the weights do not load, the run ends non-zero after the
  loading calls: nothing is generated or decoded.
\<close>

theorem errors_propagate:
  fixes hub :: "'w hub"
  assumes fetch: "merge_lora hub w = ((ftr, fr), w')"
    and test: "test_model lib = (tr, r)"
  shows "(\<forall>e. fst (hub \<lparr>repo_id = MODEL_ID, local_dir = OUTPUT_DIR,
                       local_dir_use_symlinks = False, resume_download = True\<rparr> w) = Inl e \<longrightarrow>
        fr = Inl e \<and> exit_status fr \<noteq> 0 \<and>
        ftr = [Print (''Downloading model: '' @ MODEL_ID),
               Print ''This will download ~15GB on first run...'',
               Call_snapshot_download \<lparr>repo_id = MODEL_ID, local_dir = OUTPUT_DIR,
                       local_dir_use_symlinks = False, resume_download = True\<rparr>]) \<and>
    (\<forall>ev \<in> set tr. \<forall>e. raised lib ev = Some e \<longrightarrow>
        r = Inl e \<and> exit_status r \<noteq> 0 \<and> last tr = ev \<and> count_list tr ev = 1) \<and>
    (\<forall>e. tokenizer_from_pretrained lib MODEL_PATH = Inl e \<longrightarrow>
        r = Inl e \<and> exit_status r \<noteq> 0 \<and>
        tr = [Say ''Loading tokenizer...'', Call_tokenizer_from_pretrained MODEL_PATH]) \<and>
    (\<forall>e. model_from_pretrained lib MODEL_PATH Float16 ''auto'' = Inl e \<longrightarrow>
        (\<exists>e'. r = Inl e') \<and> exit_status r \<noteq> 0 \<and>
        (tr = [Say ''Loading tokenizer...'', Call_tokenizer_from_pretrained MODEL_PATH] \<or>
         tr = [Say ''Loading tokenizer...'', Call_tokenizer_from_pretrained MODEL_PATH,
               Say ''Loading model (this may take a while)...'',
               Call_model_from_pretrained MODEL_PATH Float16 ''auto'']))"
proof (intro conjI)
  show "\<forall>e. fst (hub \<lparr>repo_id = MODEL_ID, local_dir = OUTPUT_DIR,
                       local_dir_use_symlinks = False, resume_download = True\<rparr> w) = Inl e \<longrightarrow>
        fr = Inl e \<and> exit_status fr \<noteq> 0 \<and>
        ftr = [Print (''Downloading model: '' @ MODEL_ID),
               Print ''This will download ~15GB on first run...'',
               Call_snapshot_download \<lparr>repo_id = MODEL_ID, local_dir = OUTPUT_DIR,
                       local_dir_use_symlinks = False, resume_download = True\<rparr>]"
    using fetch
    by (auto simp: merge_lora_def Let_def exit_status_def split: prod.splits sum.splits)
next
  show "\<forall>ev \<in> set tr. \<forall>e. raised lib ev = Some e \<longrightarrow>
        r = Inl e \<and> exit_status r \<noteq> 0 \<and> last tr = ev \<and> count_list tr ev = 1"
    using test_model_paths [OF test]
    apply (elim disjE exE conjE)
    apply (simp_all add: read_defs)
    done
next
  show "\<forall>e. tokenizer_from_pretrained lib MODEL_PATH = Inl e \<longrightarrow>
        r = Inl e \<and> exit_status r \<noteq> 0 \<and>
        tr = [Say ''Loading tokenizer...'', Call_tokenizer_from_pretrained MODEL_PATH]"
    using test_model_paths [OF test]
    apply (elim disjE exE conjE)
    apply (simp_all add: exit_status_def)
    done
next
  show "\<forall>e. model_from_pretrained lib MODEL_PATH Float16 ''auto'' = Inl e \<longrightarrow>
        (\<exists>e'. r = Inl e') \<and> exit_status r \<noteq> 0 \<and>
        (tr = [Say ''Loading tokenizer...'', Call_tokenizer_from_pretrained MODEL_PATH] \<or>
         tr = [Say ''Loading tokenizer...'', Call_tokenizer_from_pretrained MODEL_PATH,
               Say ''Loading model (this may take a while)...'',
               Call_model_from_pretrained MODEL_PATH Float16 ''auto''])"
    using test_model_paths [OF test]
    apply (elim disjE exE conjE)
    apply (simp_all add: exit_status_def)
    done
qed

theorem errors_propagate_witness:
  "merge_lora offline_hub [] =
     (([Print (''Downloading model: '' @ MODEL_ID),
        Print ''This will download ~15GB on first run...'',
        Call_snapshot_download \<lparr>repo_id = MODEL_ID, local_dir = OUTPUT_DIR,
          local_dir_use_symlinks = False, resume_download = True\<rparr>],
       Inl (LibraryError ''ConnectionError'')), []) \<and>
   test_model no_tokenizer_lib =
     ([Say ''Loading tokenizer...'', Call_tokenizer_from_pretrained MODEL_PATH],
      Inl (LibraryError ''OSError'')) \<and>
   raised no_tokenizer_lib (Call_tokenizer_from_pretrained MODEL_PATH) = Some (LibraryError ''OSError'') \<and>
   exit_status (Inl (LibraryError ''OSError'') :: exn + (int option, int) globals) \<noteq> 0 \<and>
   exit_status (Inl (LibraryError ''ConnectionError'') :: exn + unit) \<noteq> 0"
proof -
  have r: "raised no_tokenizer_lib (Call_tokenizer_from_pretrained MODEL_PATH) =
      Some (LibraryError ''OSError'')"
    by (simp add: raised_def exn_of_def no_tokenizer_lib_def toy_lib_def)
  have h: "fst (offline_hub \<lparr>repo_id = MODEL_ID, local_dir = OUTPUT_DIR,
          local_dir_use_symlinks = False, resume_download = True\<rparr> []) =
        Inl (LibraryError ''ConnectionError'')"
    by (simp add: offline_hub_def)
  from errors_propagate [OF offline_fetch no_tokenizer_run] r h
  have "exit_status (Inl (LibraryError ''OSError'') :: exn + (int option, int) globals) \<noteq> 0"
    "exit_status (Inl (LibraryError ''ConnectionError'') :: exn + unit) \<noteq> 0"
    by auto
  with offline_fetch no_tokenizer_run r show ?thesis by simp
qed

text \<open>
  Claim C9. The steps of every run of the Smoke Tester are an initial part of: load the
  tokenizer, load the model, render the prompt, tokenize, generate, decode; a run that
  reaches its last line takes all six. Every call but the last one of a run returned
  without raising. The prompt is rendered with \<^verbatim>\<open>tokenize=False\<close> and
  \<^verbatim>\<open>add_generation_prompt=True\<close> and the text tokenized is the rendered prompt. Whenever
  the tokenizer returns an encoding, the run moves it to the device of the loaded model,
  and what \<^verbatim>\<open>generate\<close> receives is the result of that move. The calls of a run that
  reaches its last line are exactly the seven listed, with these arguments.
\<close>

theorem linear_steps:
  assumes "test_model lib = (tr, r)"
  shows "prefix (steps tr) [Load_tokenizer, Load_model, Render_prompt, Tokenize, Generate, Decode] \<and>
    (\<forall>ev \<in> set (butlast (calls tr)). raised lib ev = None) \<and>
    (\<forall>g. r = Inr g \<longrightarrow>
       steps tr = [Load_tokenizer, Load_model, Render_prompt, Tokenize, Generate, Decode]) \<and>
    (\<forall>tk ms tok gen. Call_apply_chat_template tk ms tok gen \<in> set tr \<longrightarrow> \<not> tok \<and> gen) \<and>
    (\<forall>tk text rt. Call_tokenizer tk text rt \<in> set tr \<longrightarrow>
       (\<exists>ms. apply_chat_template lib tk ms False True = Inr text)) \<and>
    (\<forall>enc dev. Call_to enc dev \<in> set tr \<longrightarrow>
       (\<exists>tk text md. tokenizer_call lib tk text ''pt'' = Inr enc \<and>
          model_from_pretrained lib MODEL_PATH Float16 ''auto'' = Inr md \<and>
          dev = model_device lib md)) \<and>
    (\<forall>tk text rt enc. Call_tokenizer tk text rt \<in> set tr \<and> tokenizer_call lib tk text rt = Inr enc \<longrightarrow>
       (\<exists>md. model_from_pretrained lib MODEL_PATH Float16 ''auto'' = Inr md \<and>
          Call_to enc (model_device lib md) \<in> set tr)) \<and>
    (\<forall>md kw. Call_generate md kw \<in> set tr \<longrightarrow>
       (\<exists>enc. Call_to enc (model_device lib md) \<in> set tr \<and>
          to_device lib enc (model_device lib md) = Inr (unpacked kw))) \<and>
    (\<forall>g. r = Inr g \<longrightarrow>
       (\<exists>enc row.
          tokenizer_call lib (tokenizer g) (prompt g) ''pt'' = Inr enc \<and>
          to_device lib enc (model_device lib (model g)) = Inr (inputs g) \<and>
          index0 (outputs g) = Inr row \<and>
          calls tr =
            [Call_tokenizer_from_pretrained MODEL_PATH,
             Call_model_from_pretrained MODEL_PATH Float16 ''auto'',
             Call_apply_chat_template (tokenizer g) (messages g) False True,
             Call_tokenizer (tokenizer g) (prompt g) ''pt'',
             Call_to enc (model_device lib (model g)),
             Call_generate (model g)
               \<lparr>unpacked = inputs g, max_new_tokens = 100, temperature = 0.7,
                do_sample = True, pad_token_id = tokenizer_pad_token_id lib (tokenizer g)\<rparr>,
             Call_decode (tokenizer g) row True]))"
  using test_model_paths [OF assms]
  apply (elim disjE exE conjE)
  apply (simp_all add: read_defs)
  apply blast+
  done

theorem linear_steps_witness:
  "test_model toy_lib = (toy_events, Inr toy_globals) \<and>
   steps toy_events = [Load_tokenizer, Load_model, Render_prompt, Tokenize, Generate, Decode] \<and>
   (\<exists>enc row.
      to_device toy_lib enc (model_device toy_lib (model toy_globals)) = Inr (inputs toy_globals) \<and>
      calls toy_events =
        [Call_tokenizer_from_pretrained MODEL_PATH,
         Call_model_from_pretrained MODEL_PATH Float16 ''auto'',
         Call_apply_chat_template (tokenizer toy_globals) (messages toy_globals) False True,
         Call_tokenizer (tokenizer toy_globals) (prompt toy_globals) ''pt'',
         Call_to enc (model_device toy_lib (model toy_globals)),
         Call_generate (model toy_globals)
           \<lparr>unpacked = inputs toy_globals, max_new_tokens = 100, temperature = 0.7,
            do_sample = True,
            pad_token_id = tokenizer_pad_token_id toy_lib (tokenizer toy_globals)\<rparr>,
         Call_decode (tokenizer toy_globals) row True]) \<and>
   prefix (steps (fst (test_model no_weights_lib)))
     [Load_tokenizer, Load_model, Render_prompt, Tokenize, Generate, Decode]"
proof -
  note all = linear_steps [OF toy_run]
  from all [THEN conjunct2, THEN conjunct2, THEN conjunct1]
  have full: "steps toy_events =
      [Load_tokenizer, Load_model, Render_prompt, Tokenize, Generate, Decode]"
    by simp
  from all [THEN conjunct2, THEN conjunct2, THEN conjunct2, THEN conjunct2, THEN conjunct2,
      THEN conjunct2, THEN conjunct2, THEN conjunct2, THEN spec, THEN mp, OF refl]
  obtain enc row where
    a: "to_device toy_lib enc (model_device toy_lib (model toy_globals)) = Inr (inputs toy_globals)" and
    b: "calls toy_events =
        [Call_tokenizer_from_pretrained MODEL_PATH,
         Call_model_from_pretrained MODEL_PATH Float16 ''auto'',
         Call_apply_chat_template (tokenizer toy_globals) (messages toy_globals) False True,
         Call_tokenizer (tokenizer toy_globals) (prompt toy_globals) ''pt'',
         Call_to enc (model_device toy_lib (model toy_globals)),
         Call_generate (model toy_globals)
           \<lparr>unpacked = inputs toy_globals, max_new_tokens = 100, temperature = 0.7,
            do_sample = True,
            pad_token_id = tokenizer_pad_token_id toy_lib (tokenizer toy_globals)\<rparr>,
         Call_decode (tokenizer toy_globals) row True]"
    by (elim exE conjE)
  from linear_steps [OF no_weights_run, THEN conjunct1]
  have pre: "prefix (steps (fst (test_model no_weights_lib)))
     [Load_tokenizer, Load_model, Render_prompt, Tokenize, Generate, Decode]"
    by (simp only: no_weights_run fst_conv)
  show ?thesis
    by (intro conjI exI [of _ enc] exI [of _ row]) (rule toy_run full a b pre)+
qed

text \<open>
  Claim C10. The padding token id passed to \<^verbatim>\<open>generate\<close> is the tokenizer's, whatever it
  is: for a tokenizer with no padding token it is \<open>None\<close>, and nothing is put in its
  place.
\<close>

theorem pad_token_id_forwarded:
  assumes "test_model lib = (tr, r)" and "Call_generate md kw \<in> set tr"
    and "tokenizer_from_pretrained lib MODEL_PATH = Inr tk"
  shows "pad_token_id kw = tokenizer_pad_token_id lib tk \<and>
    (tokenizer_pad_token_id lib tk = None \<longrightarrow> pad_token_id kw = None)"
  using test_model_paths [OF assms(1)] assms(2,3)
  by (elim disjE exE conjE) simp_all

theorem pad_token_id_forwarded_witness:
  "test_model toy_lib = (toy_events, Inr toy_globals) \<and>
   tokenizer_from_pretrained toy_lib MODEL_PATH = Inr None \<and>
   tokenizer_pad_token_id toy_lib None = None \<and>
   (\<exists>kw. Call_generate 7 kw \<in> set toy_events \<and> pad_token_id kw = None)"
proof -
  define kw where "kw = \<lparr>unpacked = [(''input_ids'', \<lparr>shape = [1, 3], elems = [11, 12, 13]\<rparr>),
                      (''attention_mask'', \<lparr>shape = [1, 3], elems = [1, 1, 1]\<rparr>)],
         max_new_tokens = 100, temperature = 0.7, do_sample = True, pad_token_id = None\<rparr>"
  have mem: "Call_generate 7 kw \<in> set toy_events"
    by (simp add: toy_events_def kw_def)
  have tk: "tokenizer_from_pretrained toy_lib MODEL_PATH = Inr None"
    and pad: "tokenizer_pad_token_id toy_lib None = None"
    by (simp_all add: toy_lib_def)
  from pad_token_id_forwarded [OF toy_run mem tk] pad have "pad_token_id kw = None"
    by simp
  with mem tk pad toy_run show ?thesis by blast
qed

end
